theory Spec2Isabelle
  imports Main
begin

section \<open>The registration endpoint \<^verbatim>\<open>pages/api/register.ts\<close>\<close>

text \<open>
  The handler \<^verbatim>\<open>register(req, res)\<close> is embedded as a function from the
  configuration, the values the call draws from its surroundings (clock, random identifier,
  values the database generates), the state of the backing stores and the request, to the
  outcome of the call, the new state of the stores and the list of calls it made to the
  captcha service and the stores.

  Numbers are integers: ticket numbers and millisecond timestamps are far below \<open>2^53\<close>,
  where JavaScript's doubles are exact. \<open>NaN\<close>, the result of a failed \<^verbatim>\<open>parseInt\<close>,
  is a value of its own. Strings are byte lists; trimming and lower-casing are the ASCII
  part of the JavaScript operations. Store and captcha calls answer: a lost connection or
  a provider fault is outside the model.
\<close>

subsection \<open>JavaScript values\<close>

datatype jsval = JUndefined | JNull | JBool bool | JNum int | JStr string | JObject

text \<open>\<open>JObject\<close> stands for any object or array: truthy, and without a callable \<^verbatim>\<open>trim\<close>.\<close>

datatype jsnum = NaN | Num int

datatype js_error = TypeError

fun truthy :: "jsval \<Rightarrow> bool" where
  "truthy JUndefined = False"
| "truthy JNull = False"
| "truthy (JBool b) = b"
| "truthy (JNum n) = (n \<noteq> 0)"
| "truthy (JStr s) = (s \<noteq> [])"
| "truthy JObject = True"

definition is_space :: "char \<Rightarrow> bool" where
  "is_space c = (of_char c \<in> {9, 10, 11, 12, 13, 32 :: nat})"

definition trim :: "string \<Rightarrow> string" where
  "trim s = rev (dropWhile is_space (rev (dropWhile is_space s)))"

definition lower_char :: "char \<Rightarrow> char" where
  "lower_char c = (let n = of_char c :: nat in if 65 \<le> n \<and> n \<le> 90 then char_of (n + 32) else c)"

definition toLowerCase :: "string \<Rightarrow> string" where
  "toLowerCase s = map lower_char s"

definition is_digit :: "char \<Rightarrow> bool" where
  "is_digit c = (let n = of_char c :: nat in 48 \<le> n \<and> n \<le> 57)"

definition digit_val :: "char \<Rightarrow> int" where
  "digit_val c = int (of_char c) - 48"

definition digits_val :: "string \<Rightarrow> int" where
  "digits_val ds = foldl (\<lambda>a c. a * 10 + digit_val c) 0 ds"

text \<open>
  \<^verbatim>\<open>parseInt(s, 10)\<close>: leading white space is skipped, a sign is read, then the longest
  run of decimal digits; with no digit the result is \<open>NaN\<close>.
\<close>

definition parseInt10 :: "string \<Rightarrow> jsnum" where
  "parseInt10 s =
     (let t = dropWhile is_space s;
          neg = (case t of [] \<Rightarrow> False | c # _ \<Rightarrow> c = CHR ''-'');
          u = (case t of [] \<Rightarrow> [] | c # cs \<Rightarrow> if c = CHR ''-'' \<or> c = CHR ''+'' then cs else t);
          ds = takeWhile is_digit u
      in if ds = [] then NaN else Num (if neg then - digits_val ds else digits_val ds))"

text \<open>The string of an integer-valued number, as \<^verbatim>\<open>String(n)\<close> writes it.\<close>

function show_digits :: "int \<Rightarrow> string" where
  "show_digits n =
     (if n < 10 then [char_of (48 + n)]
      else show_digits (n div 10) @ [char_of (48 + n mod 10)])"
  by pat_completeness auto
termination
  by (relation "measure nat") auto

declare show_digits.simps [simp del]

definition showInt :: "int \<Rightarrow> string" where
  "showInt n = (if n < 0 then CHR ''-'' # show_digits (- n) else show_digits n)"

subsection \<open>Configuration and surroundings\<close>

text \<open>
  What the handler imports from modules that are not part of the file: the captcha flag
  and validator of \<^verbatim>\<open>@lib/captcha\<close>, \<^verbatim>\<open>validator.isEmail\<close>, \<^verbatim>\<open>emailToId\<close> of
  \<^verbatim>\<open>@lib/redis\<close>, the constants of \<^verbatim>\<open>@lib/constants\<close>, and whether
  \<^verbatim>\<open>process.env.NODE_ENV\<close> is \<^verbatim>\<open>production\<close>. They are parameters.
\<close>

record env =
  IS_CAPTCHA_ENABLED :: bool
  validateCaptchaResult :: "jsval \<Rightarrow> bool"
  isEmail :: "string \<Rightarrow> bool"
  emailToId :: "string \<Rightarrow> string"
  SAMPLE_TICKET_NUMBER :: int
  COOKIE :: string
  production :: bool

text \<open>
  What one call reads from its surroundings: \<^verbatim>\<open>Date.now()\<close> when the record is stamped
  and when the cookie is issued, the result of \<^verbatim>\<open>nanoid()\<close>, and the \<^verbatim>\<open>id\<close> and
  \<^verbatim>\<open>created_at\<close> the relational store gives an inserted row.
\<close>

record ambient =
  date_now :: int
  date_now_cookie :: int
  nanoid :: string
  db_id :: jsval
  db_created_at :: string

subsection \<open>The key-value store\<close>

record redis_db =
  hashes :: "string \<Rightarrow> string \<Rightarrow> string option"
  counters :: "string \<Rightarrow> int"

text \<open>
  Modelled from the spec: the key-value client is not part of the source. Its operations
  are \<^verbatim>\<open>getField(key, field)\<close>, \<^verbatim>\<open>getFields(key, fields[])\<close>,
  \<^verbatim>\<open>incrementCounter(counterKey) -> int\<close> and \<^verbatim>\<open>setFields(key, fields...)\<close>;
  the increment is one atomic step, and a counter that was never set counts from zero.
\<close>

definition hget :: "redis_db \<Rightarrow> string \<Rightarrow> string \<Rightarrow> string option" where
  "hget r k f = hashes r k f"

definition hmget :: "redis_db \<Rightarrow> string \<Rightarrow> string list \<Rightarrow> string option list" where
  "hmget r k fs = map (hashes r k) fs"

definition incr :: "redis_db \<Rightarrow> string \<Rightarrow> redis_db \<times> int" where
  "incr r k = (r\<lparr>counters := (counters r)(k := counters r k + 1)\<rparr>, counters r k + 1)"

definition hmset :: "redis_db \<Rightarrow> string \<Rightarrow> (string \<times> string) list \<Rightarrow> redis_db" where
  "hmset r k fvs = r\<lparr>hashes := (hashes r)(k := foldl (\<lambda>h (f, v). h(f \<mapsto> v)) (hashes r k) fvs)\<rparr>"

subsection \<open>The relational store\<close>

record registration_row =
  row_id :: jsval
  row_email :: string
  ticket_number :: int
  row_name :: jsval
  row_username :: jsval
  created_at :: string

text \<open>
  Modelled from the spec: the relational client is not part of the source. Its operations
  are \<^verbatim>\<open>findOne(table, filter)\<close>, \<^verbatim>\<open>count(table, filter)\<close> and
  \<^verbatim>\<open>insertOne(table, record) -> record\<close>. \<^verbatim>\<open>single()\<close> answers with a row when
  exactly one row matches, and with no data otherwise.
\<close>

definition select_single :: "registration_row list \<Rightarrow> string \<Rightarrow> registration_row option" where
  "select_single t e = (case filter (\<lambda>r. row_email r = e) t of [r] \<Rightarrow> Some r | _ \<Rightarrow> None)"

definition count_exact :: "registration_row list \<Rightarrow> int" where
  "count_exact t = int (length t)"

definition insert_single ::
  "ambient \<Rightarrow> registration_row list \<Rightarrow> int \<Rightarrow> string \<Rightarrow> registration_row list \<times> registration_row" where
  "insert_single amb t n e =
     (let row = \<lparr>row_id = db_id amb, row_email = e, ticket_number = n, row_name = JNull,
                 row_username = JNull, created_at = db_created_at amb\<rparr>
      in (t @ [row], row))"

subsection \<open>Requests, responses, effects\<close>

record body_fields =
  body_email :: jsval
  body_token :: jsval

text \<open>
  \<open>http_method\<close> is \<^verbatim>\<open>req.method\<close>; \<open>body = None\<close> is a request whose body is
  \<^verbatim>\<open>null\<close> or \<^verbatim>\<open>undefined\<close>, and a field that is missing reads as
  \<^verbatim>\<open>undefined\<close>.
\<close>

record request =
  http_method :: string
  body :: "body_fields option"

record conf_user =
  id' :: jsval
  email :: string
  ticketNumber :: jsnum
  createdAt :: jsnum
  name :: jsval
  username :: jsval

record cookie =
  cookie_name :: string
  cookie_value :: jsval
  httpOnly :: bool
  sameSite :: string
  secure :: bool
  path :: string
  expires :: int

datatype json_body = ErrorBody string string | UserBody conf_user

record response =
  status :: nat
  set_cookie :: "cookie option"
  json :: json_body

datatype outcome = Response response | Throws js_error

datatype effect =
    CaptchaCall jsval
  | RedisHget string string
  | RedisHmget string "string list"
  | RedisIncr string
  | RedisHmset string "(string \<times> string) list"
  | SbSelectSingle string
  | SbCount
  | SbInsert int string

record world =
  redis :: "redis_db option"
  supabase :: "registration_row list option"

record result =
  outcome :: outcome
  world_after :: world
  trace :: "effect list"

subsection \<open>The handler\<close>

text \<open>
  Line 48, \<^verbatim>\<open>((req.body.email as string) || '').trim().toLowerCase()\<close>: a falsy field
  becomes the empty string; a truthy value that is not a string has no \<^verbatim>\<open>trim\<close>
  to call, and the call throws.
\<close>

definition email_of :: "jsval \<Rightarrow> js_error + string" where
  "email_of v =
     (if truthy v
      then (case v of JStr s \<Rightarrow> Inr (toLowerCase (trim s)) | _ \<Rightarrow> Inl TypeError)
      else Inr (toLowerCase (trim [])))"

definition error_response :: "nat \<Rightarrow> string \<Rightarrow> string \<Rightarrow> response" where
  "error_response st code message =
     \<lparr>status = st, set_cookie = None, json = ErrorBody code message\<rparr>"

text \<open>Lines 83 and 113: a string is truthy when it is not empty, \<^verbatim>\<open>null\<close> is falsy.\<close>

definition truthy_field :: "string option \<Rightarrow> bool" where
  "truthy_field x = (case x of None \<Rightarrow> False | Some s \<Rightarrow> s \<noteq> [])"

definition field_val :: "string option \<Rightarrow> jsval" where
  "field_val x = (case x of None \<Rightarrow> JNull | Some s \<Rightarrow> JStr s)"

text \<open>\<^verbatim>\<open>parseInt(null, 10)\<close> reads the string \<^verbatim>\<open>null\<close>, which has no digit.\<close>

definition parse_field :: "string option \<Rightarrow> jsnum" where
  "parse_field x = (case x of None \<Rightarrow> NaN | Some s \<Rightarrow> parseInt10 s)"

text \<open>Lines 79 to 105, the key-value branch.\<close>

definition register_redis ::
  "env \<Rightarrow> ambient \<Rightarrow> redis_db \<Rightarrow> string \<Rightarrow> redis_db \<times> nat \<times> conf_user \<times> effect list" where
  "register_redis cfg amb r e =
     (let i = emailToId cfg e;
          key = ''id:'' @ i;
          existingTicketNumberString = hget r key ''ticketNumber''
      in if truthy_field existingTicketNumberString
         then
           (let item = hmget r key [''name'', ''username'', ''createdAt'']
            in (r, 200,
                \<lparr>id' = JStr i, email = e,
                 ticketNumber = parse_field existingTicketNumberString,
                 createdAt = parse_field (item ! 2),
                 name = field_val (item ! 0), username = field_val (item ! 1)\<rparr>,
                [RedisHget key ''ticketNumber'',
                 RedisHmget key [''name'', ''username'', ''createdAt'']]))
         else
           (let (r1, n) = incr r ''count'';
                t = date_now amb;
                fvs = [(''email'', e), (''ticketNumber'', showInt n), (''createdAt'', showInt t)];
                r2 = hmset r1 key fvs
            in (r2, 201,
                \<lparr>id' = JStr i, email = e, ticketNumber = Num n, createdAt = Num t,
                 name = JUndefined, username = JUndefined\<rparr>,
                [RedisHget key ''ticketNumber'', RedisIncr ''count'', RedisHmset key fvs])))"

text \<open>
  Lines 106 to 134, the relational branch. On the branch of an existing registration the
  variable \<^verbatim>\<open>id\<close> is never assigned and stays \<^verbatim>\<open>undefined\<close>.
\<close>

definition register_supabase ::
  "ambient \<Rightarrow> registration_row list \<Rightarrow> string
     \<Rightarrow> registration_row list \<times> nat \<times> conf_user \<times> effect list" where
  "register_supabase amb t e =
     (case select_single t e of
        Some item \<Rightarrow>
          (t, 200,
           \<lparr>id' = JUndefined, email = e,
            ticketNumber = parseInt10 (showInt (ticket_number item)),
            createdAt = parseInt10 (created_at item),
            name = row_name item, username = row_username item\<rparr>,
           [SbSelectSingle e])
      | None \<Rightarrow>
          (let total = count_exact t;
               n = total + 1;
               (t', data) = insert_single amb t n e
           in (t', 201,
               \<lparr>id' = row_id data, email = e, ticketNumber = Num n,
                createdAt = parseInt10 (created_at data),
                name = JUndefined, username = JUndefined\<rparr>,
               [SbSelectSingle e, SbCount, SbInsert n e])))"

text \<open>Lines 135 to 140, no backend configured.\<close>

definition register_sample :: "env \<Rightarrow> ambient \<Rightarrow> string \<Rightarrow> nat \<times> conf_user" where
  "register_sample cfg amb e =
     (200,
      \<lparr>id' = JStr (nanoid amb), email = e, ticketNumber = Num (SAMPLE_TICKET_NUMBER cfg),
       createdAt = Num (date_now amb), name = JUndefined, username = JUndefined\<rparr>)"

text \<open>
  Lines 143 to 161: the cookie is built from the same \<^verbatim>\<open>id\<close> the body carries.
  \<^verbatim>\<open>ms('7 days')\<close> is 604800000 milliseconds. The record holds the arguments of
  \<^verbatim>\<open>cookie.serialize\<close>.
\<close>

definition success_response :: "env \<Rightarrow> ambient \<Rightarrow> nat \<Rightarrow> conf_user \<Rightarrow> response" where
  "success_response cfg amb statusCode u =
     \<lparr>status = statusCode,
      set_cookie = Some \<lparr>cookie_name = COOKIE cfg, cookie_value = id' u, httpOnly = True,
                         sameSite = ''strict'', secure = production cfg, path = ''/api'',
                         expires = date_now_cookie amb + 604800000\<rparr>,
      json = UserBody u\<rparr>"

text \<open>Lines 72 to 161, once the email and the captcha have passed.\<close>

definition resolve :: "env \<Rightarrow> ambient \<Rightarrow> world \<Rightarrow> string \<Rightarrow> effect list \<Rightarrow> result" where
  "resolve cfg amb w e tr =
     (case redis w of
        Some r \<Rightarrow>
          (let (r', statusCode, u, ops) = register_redis cfg amb r e
           in \<lparr>outcome = Response (success_response cfg amb statusCode u),
               world_after = w\<lparr>redis := Some r'\<rparr>, trace = tr @ ops\<rparr>)
      | None \<Rightarrow>
          (case supabase w of
             Some t \<Rightarrow>
               (let (t', statusCode, u, ops) = register_supabase amb t e
                in \<lparr>outcome = Response (success_response cfg amb statusCode u),
                    world_after = w\<lparr>supabase := Some t'\<rparr>, trace = tr @ ops\<rparr>)
           | None \<Rightarrow>
               (let (statusCode, u) = register_sample cfg amb e
                in \<lparr>outcome = Response (success_response cfg amb statusCode u),
                    world_after = w, trace = tr\<rparr>)))"

definition register :: "env \<Rightarrow> ambient \<Rightarrow> world \<Rightarrow> request \<Rightarrow> result" where
  "register cfg amb w req =
     (if http_method req \<noteq> ''POST''
      then \<lparr>outcome = Response (error_response 501 ''method_unknown''
                                   ''This endpoint only responds to POST''),
            world_after = w, trace = []\<rparr>
      else
        (case body req of
           None \<Rightarrow> \<lparr>outcome = Throws TypeError, world_after = w, trace = []\<rparr>
         | Some b \<Rightarrow>
             (case email_of (body_email b) of
                Inl err \<Rightarrow> \<lparr>outcome = Throws err, world_after = w, trace = []\<rparr>
              | Inr e \<Rightarrow>
                  if \<not> isEmail cfg e
                  then \<lparr>outcome = Response (error_response 400 ''bad_email'' ''Invalid email''),
                        world_after = w, trace = []\<rparr>
                  else if IS_CAPTCHA_ENABLED cfg
                  then
                    (if \<not> validateCaptchaResult cfg (body_token b)
                     then \<lparr>outcome = Response (error_response 400 ''bad_captcha''
                                                  ''Invalid captcha''),
                           world_after = w, trace = [CaptchaCall (body_token b)]\<rparr>
                     else resolve cfg amb w e [CaptchaCall (body_token b)])
                  else resolve cfg amb w e [])))"

subsection \<open>Observers\<close>

definition status_of :: "outcome \<Rightarrow> nat option" where
  "status_of out = (case out of Response rsp \<Rightarrow> Some (status rsp) | Throws _ \<Rightarrow> None)"

definition user_of :: "outcome \<Rightarrow> conf_user option" where
  "user_of out =
     (case out of
        Response rsp \<Rightarrow> (case json rsp of UserBody u \<Rightarrow> Some u | ErrorBody _ _ \<Rightarrow> None)
      | Throws _ \<Rightarrow> None)"

definition cookie_id_of :: "outcome \<Rightarrow> jsval option" where
  "cookie_id_of out =
     (case out of
        Response rsp \<Rightarrow> (case set_cookie rsp of Some c \<Rightarrow> Some (cookie_value c) | None \<Rightarrow> None)
      | Throws _ \<Rightarrow> None)"

text \<open>
  The \<^verbatim>\<open>id\<close> key of the JSON text of the body (line 154): a key whose value is
  \<^verbatim>\<open>undefined\<close> is left out of the text. The cookie has no such case: the value
  \<^verbatim>\<open>undefined\<close> is written into it as the text \<^verbatim>\<open>undefined\<close>.
\<close>

definition body_id_of :: "outcome \<Rightarrow> jsval option" where
  "body_id_of out =
     (case user_of out of
        Some u \<Rightarrow> if id' u = JUndefined then None else Some (id' u)
      | None \<Rightarrow> None)"

definition is_store_op :: "effect \<Rightarrow> bool" where
  "is_store_op ef = (case ef of CaptchaCall _ \<Rightarrow> False | _ \<Rightarrow> True)"

definition is_captcha_call :: "effect \<Rightarrow> bool" where
  "is_captcha_call ef = (case ef of CaptchaCall _ \<Rightarrow> True | _ \<Rightarrow> False)"

text \<open>
  The request reaches line 72 with the normalised address \<open>e\<close>: it is a POST, its body
  is there, the address passes the validator, and the captcha check passes or is off.
\<close>

definition accepted :: "env \<Rightarrow> request \<Rightarrow> string \<Rightarrow> bool" where
  "accepted cfg req e =
     (http_method req = ''POST'' \<and>
      (case body req of
         None \<Rightarrow> False
       | Some b \<Rightarrow>
           email_of (body_email b) = Inr e \<and> isEmail cfg e \<and>
           (if IS_CAPTCHA_ENABLED cfg then validateCaptchaResult cfg (body_token b) else True)))"

text \<open>The captcha call of an accepted request, if the check is on.\<close>

definition captcha_trace :: "env \<Rightarrow> request \<Rightarrow> effect list" where
  "captcha_trace cfg req =
     (case body req of
        None \<Rightarrow> []
      | Some b \<Rightarrow> if IS_CAPTCHA_ENABLED cfg then [CaptchaCall (body_token b)] else [])"

text \<open>The lookup of line 81 to 83 finds a registration for the address.\<close>

definition registered_redis :: "env \<Rightarrow> redis_db \<Rightarrow> string \<Rightarrow> bool" where
  "registered_redis cfg r e = truthy_field (hget r (''id:'' @ emailToId cfg e) ''ticketNumber'')"

text \<open>The same for the configured backend: line 83 for the first, line 113 for the second.\<close>

definition registered :: "env \<Rightarrow> world \<Rightarrow> string \<Rightarrow> bool" where
  "registered cfg w e =
     (case redis w of
        Some r \<Rightarrow> registered_redis cfg r e
      | None \<Rightarrow>
          (case supabase w of
             Some t \<Rightarrow> (case select_single t e of Some _ \<Rightarrow> True | None \<Rightarrow> False)
           | None \<Rightarrow> False))"

definition redis_field :: "world \<Rightarrow> string \<Rightarrow> string \<Rightarrow> string option" where
  "redis_field w k f = (case redis w of Some r \<Rightarrow> hget r k f | None \<Rightarrow> None)"

text \<open>A sequence of calls, one after the other, each on the stores the last one left.\<close>

fun run :: "env \<Rightarrow> world \<Rightarrow> (ambient \<times> request) list \<Rightarrow> world \<times> outcome list" where
  "run cfg w [] = (w, [])"
| "run cfg w (c # cs) =
     (let res = register cfg (fst c) w (snd c);
          rest = run cfg (world_after res) cs
      in (fst rest, outcome res # snd rest))"

text \<open>The ticket number a call assigned: that of a response with status 201.\<close>

definition assigned :: "outcome \<Rightarrow> int list" where
  "assigned out =
     (case out of
        Response rsp \<Rightarrow>
          (if status rsp = 201
           then (case json rsp of
                   UserBody u \<Rightarrow> (case ticketNumber u of Num n \<Rightarrow> [n] | NaN \<Rightarrow> [])
                 | ErrorBody _ _ \<Rightarrow> [])
           else [])
      | Throws _ \<Rightarrow> [])"

definition count_of :: "world \<Rightarrow> int" where
  "count_of w = (case redis w of Some r \<Rightarrow> counters r ''count'' | None \<Rightarrow> 0)"

subsection \<open>A configuration and stores for the worked examples\<close>

text \<open>
  The validator of the examples accepts the address of the spec's scenario and one more,
  the captcha service the one token \<^verbatim>\<open>ok\<close>; the identifier of an address is the
  address.
\<close>

definition demo_env :: env where
  "demo_env =
     \<lparr>IS_CAPTCHA_ENABLED = False,
      validateCaptchaResult = (\<lambda>t. t = JStr ''ok''),
      isEmail = (\<lambda>s. s = ''test@example.com'' \<or> s = ''other@example.com''),
      emailToId = (\<lambda>s. s),
      SAMPLE_TICKET_NUMBER = 1234,
      COOKIE = ''user-id'',
      production = False\<rparr>"

definition demo_ambient :: ambient where
  "demo_ambient =
     \<lparr>date_now = 1600000000000, date_now_cookie = 1600000000005, nanoid = ''V1StGXR8'',
      db_id = JStr ''row-7'', db_created_at = ''1600000000000''\<rparr>"

definition demo_request :: request where
  "demo_request =
     \<lparr>http_method = ''POST'',
      body = Some \<lparr>body_email = JStr '' Test@Example.com '', body_token = JStr ''bad''\<rparr>\<rparr>"

definition captcha_env :: env where
  "captcha_env = demo_env\<lparr>IS_CAPTCHA_ENABLED := True\<rparr>"

definition get_request :: request where
  "get_request = \<lparr>http_method = ''GET'', body = None\<rparr>"

definition request_with :: "jsval \<Rightarrow> jsval \<Rightarrow> request" where
  "request_with em tok = \<lparr>http_method = ''POST'', body = Some \<lparr>body_email = em, body_token = tok\<rparr>\<rparr>"

definition other_request :: request where
  "other_request =
     \<lparr>http_method = ''POST'',
      body = Some \<lparr>body_email = JStr ''other@example.com'', body_token = JStr ''ok''\<rparr>\<rparr>"

definition empty_redis :: redis_db where
  "empty_redis = \<lparr>hashes = (\<lambda>k f. None), counters = (\<lambda>k. 0)\<rparr>"

definition redis_world :: world where
  "redis_world = \<lparr>redis = Some empty_redis, supabase = None\<rparr>"

definition demo_row :: registration_row where
  "demo_row =
     \<lparr>row_id = JStr ''row-1'', row_email = ''test@example.com'', ticket_number = 1,
      row_name = JNull, row_username = JNull, created_at = ''1599999999000''\<rparr>"

definition supabase_world :: world where
  "supabase_world = \<lparr>redis = None, supabase = Some [demo_row]\<rparr>"

definition empty_supabase_world :: world where
  "empty_supabase_world = \<lparr>redis = None, supabase = Some []\<rparr>"

definition sample_world :: world where
  "sample_world = \<lparr>redis = None, supabase = None\<rparr>"

section \<open>Properties of the handler\<close>

subsection \<open>The shape of a call\<close>

lemma register_not_POST:
  "http_method req \<noteq> ''POST'' \<Longrightarrow>
     register cfg amb w req =
       \<lparr>outcome = Response (error_response 501 ''method_unknown''
                              ''This endpoint only responds to POST''),
        world_after = w, trace = []\<rparr>"
  by (simp add: register_def)

lemma register_accepted:
  assumes "accepted cfg req e"
  shows "register cfg amb w req = resolve cfg amb w e (captcha_trace cfg req)"
  using assms
  by (auto simp: accepted_def register_def captcha_trace_def split: option.splits)

lemma resolve_outcome:
  "\<exists>st u. outcome (resolve cfg amb w e tr) = Response (success_response cfg amb st u) \<and>
     (st = 200 \<or> st = 201)"
  by (auto simp: resolve_def register_redis_def register_supabase_def register_sample_def
        Let_def incr_def split: option.splits prod.splits)

lemma resolve_status:
  assumes "outcome (resolve cfg amb w e tr) = Response rsp"
  shows "status rsp = 200 \<or> status rsp = 201"
  using resolve_outcome [of cfg amb w e tr] assms
  by (auto simp: success_response_def)

lemma register_POST:
  assumes "http_method req = ''POST''"
  shows "(\<exists>err. outcome (register cfg amb w req) = Throws err) \<or>
         outcome (register cfg amb w req) =
           Response (error_response 400 ''bad_email'' ''Invalid email'') \<or>
         outcome (register cfg amb w req) =
           Response (error_response 400 ''bad_captcha'' ''Invalid captcha'') \<or>
         (\<exists>e tr. register cfg amb w req = resolve cfg amb w e tr)"
proof (cases "body req")
  case None
  with assms show ?thesis by (simp add: register_def)
next
  case (Some b)
  show ?thesis
  proof (cases "email_of (body_email b)")
    case (Inl err)
    with assms Some show ?thesis by (simp add: register_def)
  next
    case (Inr e)
    with assms Some show ?thesis by (auto simp: register_def)
  qed
qed

lemma register_POST_status:
  assumes "http_method req = ''POST''"
    and "outcome (register cfg amb w req) = Response rsp"
  shows "status rsp = 200 \<or> status rsp = 201 \<or>
         status rsp = 400 \<and>
           (json rsp = ErrorBody ''bad_email'' ''Invalid email'' \<or>
            json rsp = ErrorBody ''bad_captcha'' ''Invalid captcha'')"
proof -
  consider (throws) err where "outcome (register cfg amb w req) = Throws err"
    | (bad_email) "outcome (register cfg amb w req) =
        Response (error_response 400 ''bad_email'' ''Invalid email'')"
    | (bad_captcha) "outcome (register cfg amb w req) =
        Response (error_response 400 ''bad_captcha'' ''Invalid captcha'')"
    | (resolved) e tr where "register cfg amb w req = resolve cfg amb w e tr"
    using register_POST [OF assms(1), of cfg amb w] by blast
  then show ?thesis
  proof cases
    case (throws err)
    with assms(2) show ?thesis by simp
  next
    case bad_email
    with assms(2) show ?thesis by (auto simp: error_response_def)
  next
    case bad_captcha
    with assms(2) show ?thesis by (auto simp: error_response_def)
  next
    case (resolved e tr)
    with assms(2) have "outcome (resolve cfg amb w e tr) = Response rsp" by simp
    from resolve_status [OF this] show ?thesis by blast
  qed
qed

lemma register_returns:
  assumes "body req = Some b"
    and "email_of (body_email b) = Inr e"
  shows "\<exists>rsp. outcome (register cfg amb w req) = Response rsp"
  using assms resolve_outcome [of cfg amb w e]
  by (auto simp: register_def)

lemma demo_email: "email_of (JStr '' Test@Example.com '') = Inr ''test@example.com''"
  by code_simp

lemma demo_accepted: "accepted demo_env demo_request ''test@example.com''"
  by code_simp

subsection \<open>Rejections\<close>

text \<open>
  C6. A POST whose address, trimmed and lower-cased, fails the validator is answered with
  status 400 and the code \<^verbatim>\<open>bad_email\<close>; the stores are as they were, and neither the
  captcha service nor a store was called. The validator is a parameter: the theorem holds
  for whatever it rejects, and the examples use one that rejects \<^verbatim>\<open>not-an-email\<close>
  and the empty string.
\<close>

theorem bad_email_rejected:
  assumes "http_method req = ''POST''"
    and "body req = Some b"
    and "email_of (body_email b) = Inr e"
    and "\<not> isEmail cfg e"
  shows "register cfg amb w req =
           \<lparr>outcome = Response (error_response 400 ''bad_email'' ''Invalid email''),
            world_after = w, trace = []\<rparr>"
  using assms by (simp add: register_def)

theorem bad_email_rejected_witness:
  "register demo_env demo_ambient redis_world (request_with (JStr ''not-an-email'') JUndefined) =
     \<lparr>outcome = Response (error_response 400 ''bad_email'' ''Invalid email''),
      world_after = redis_world, trace = []\<rparr> \<and>
   register demo_env demo_ambient redis_world (request_with (JStr []) JUndefined) =
     \<lparr>outcome = Response (error_response 400 ''bad_email'' ''Invalid email''),
      world_after = redis_world, trace = []\<rparr>"
proof -
  let ?b1 = "\<lparr>body_email = JStr ''not-an-email'', body_token = JUndefined\<rparr>"
  let ?b2 = "\<lparr>body_email = JStr [], body_token = JUndefined\<rparr>"
  have m: "http_method (request_with em tok) = ''POST''" for em tok
    by (simp add: request_with_def)
  have b1: "body (request_with (JStr ''not-an-email'') JUndefined) = Some ?b1"
    and b2: "body (request_with (JStr []) JUndefined) = Some ?b2"
    by (simp_all add: request_with_def)
  have e1: "email_of (body_email ?b1) = Inr ''not-an-email''"
    and e2: "email_of (body_email ?b2) = Inr []"
    by code_simp+
  have n1: "\<not> isEmail demo_env ''not-an-email''" and n2: "\<not> isEmail demo_env []"
    by (simp_all add: demo_env_def)
  from bad_email_rejected [OF m b1 e1 n1, of demo_ambient redis_world]
    bad_email_rejected [OF m b2 e2 n2, of demo_ambient redis_world]
  show ?thesis by simp
qed

text \<open>
  C5. With captcha enforcement on, a POST whose address passes the validator and whose
  token fails the captcha check is answered with status 400 and the code
  \<^verbatim>\<open>bad_captcha\<close>. The only call made is the one to the captcha service: no store was
  read or written, and the stores are as they were. (The address is checked first: a
  request that fails both checks is answered with \<^verbatim>\<open>bad_email\<close>.)
\<close>

theorem bad_captcha_rejected:
  assumes "IS_CAPTCHA_ENABLED cfg"
    and "http_method req = ''POST''"
    and "body req = Some b"
    and "email_of (body_email b) = Inr e"
    and "isEmail cfg e"
    and "\<not> validateCaptchaResult cfg (body_token b)"
  shows "register cfg amb w req =
           \<lparr>outcome = Response (error_response 400 ''bad_captcha'' ''Invalid captcha''),
            world_after = w, trace = [CaptchaCall (body_token b)]\<rparr> \<and>
         filter is_store_op (trace (register cfg amb w req)) = []"
  using assms by (simp add: register_def is_store_op_def)

theorem bad_captcha_rejected_witness:
  "register captcha_env demo_ambient redis_world demo_request =
     \<lparr>outcome = Response (error_response 400 ''bad_captcha'' ''Invalid captcha''),
      world_after = redis_world, trace = [CaptchaCall (JStr ''bad'')]\<rparr> \<and>
   filter is_store_op (trace (register captcha_env demo_ambient redis_world demo_request)) = []"
proof -
  let ?b = "\<lparr>body_email = JStr '' Test@Example.com '', body_token = JStr ''bad''\<rparr>"
  have "IS_CAPTCHA_ENABLED captcha_env"
    and "http_method demo_request = ''POST''"
    and "body demo_request = Some ?b"
    and "email_of (body_email ?b) = Inr ''test@example.com''"
    and "isEmail captcha_env ''test@example.com''"
    and "\<not> validateCaptchaResult captcha_env (body_token ?b)"
    by (simp_all add: captcha_env_def demo_env_def demo_request_def demo_email)
  from bad_captcha_rejected [OF this, of demo_ambient redis_world] show ?thesis
    by (simp add: is_store_op_def)
qed

text \<open>
  C9. In a POST whose body has no \<^verbatim>\<open>email\<close> field, or a falsy one (\<^verbatim>\<open>null\<close>,
  \<^verbatim>\<open>false\<close>, \<^verbatim>\<open>0\<close>, the empty string), the address is read as the empty string.
  The call returns a response: it does not throw. When the validator rejects the empty
  string, which is for the validator package to settle, the response is status 400 with
  the code \<^verbatim>\<open>bad_email\<close>, the stores untouched.
\<close>

theorem missing_email_rejected:
  assumes "http_method req = ''POST''"
    and "body req = Some b"
    and "\<not> truthy (body_email b)"
  shows "email_of (body_email b) = Inr [] \<and>
         (\<exists>rsp. outcome (register cfg amb w req) = Response rsp) \<and>
         (\<not> isEmail cfg [] \<longrightarrow>
            register cfg amb w req =
              \<lparr>outcome = Response (error_response 400 ''bad_email'' ''Invalid email''),
               world_after = w, trace = []\<rparr>)"
proof -
  have e: "email_of (body_email b) = Inr []"
    using assms(3) by (simp add: email_of_def toLowerCase_def trim_def)
  have "\<exists>rsp. outcome (register cfg amb w req) = Response rsp"
    using assms(1,2) e resolve_outcome [of cfg amb w "[]"]
    by (auto simp: register_def)
  with e assms(1,2) show ?thesis by (simp add: register_def)
qed

theorem missing_email_rejected_witness:
  "email_of JUndefined = Inr [] \<and>
   register demo_env demo_ambient redis_world (request_with JUndefined JUndefined) =
     \<lparr>outcome = Response (error_response 400 ''bad_email'' ''Invalid email''),
      world_after = redis_world, trace = []\<rparr>"
proof -
  let ?b = "\<lparr>body_email = JUndefined, body_token = JUndefined\<rparr>"
  have "http_method (request_with JUndefined JUndefined) = ''POST''"
    and "body (request_with JUndefined JUndefined) = Some ?b"
    and "\<not> truthy (body_email ?b)"
    by (simp_all add: request_with_def)
  from missing_email_rejected [OF this, of demo_env demo_ambient redis_world]
  show ?thesis by (simp add: demo_env_def)
qed

text \<open>
  C10. With captcha enforcement off, two POST requests that differ in their token only
  get the same result from the same stores and surroundings: the same outcome (status and
  body), the same stores afterwards, the same calls. The captcha service is not called,
  and replacing the validator of tokens by any other changes nothing.
\<close>

theorem token_ignored_when_captcha_off:
  assumes "\<not> IS_CAPTCHA_ENABLED cfg"
    and "http_method r1 = ''POST''" and "http_method r2 = ''POST''"
    and "body r1 = Some b1" and "body r2 = Some b2"
    and "body_email b1 = body_email b2"
  shows "register cfg amb w r1 = register cfg amb w r2 \<and>
         filter is_captcha_call (trace (register cfg amb w r1)) = [] \<and>
         register (cfg\<lparr>validateCaptchaResult := v\<rparr>) amb w r1 = register cfg amb w r1"
proof -
  have "register cfg amb w r1 = register cfg amb w r2"
    using assms by (simp add: register_def split: sum.splits)
  moreover have "filter is_captcha_call (trace (register cfg amb w r1)) = []"
    using assms(1,2,4)
    by (auto simp: register_def resolve_def register_redis_def register_supabase_def
          register_sample_def is_captcha_call_def Let_def incr_def
          split: option.splits sum.splits prod.splits)
  moreover have "register (cfg\<lparr>validateCaptchaResult := v\<rparr>) amb w r1 = register cfg amb w r1"
    using assms(1)
    by (simp add: register_def resolve_def register_redis_def register_sample_def
          success_response_def split: option.splits sum.splits)
  ultimately show ?thesis by simp
qed

theorem token_ignored_when_captcha_off_witness:
  "register demo_env demo_ambient redis_world (request_with (JStr ''test@example.com'') (JStr ''bad'')) =
   register demo_env demo_ambient redis_world (request_with (JStr ''test@example.com'') (JStr ''ok'')) \<and>
   filter is_captcha_call
     (trace (register demo_env demo_ambient redis_world
               (request_with (JStr ''test@example.com'') (JStr ''bad'')))) = []"
proof -
  have "\<not> IS_CAPTCHA_ENABLED demo_env"
    and "http_method (request_with (JStr ''test@example.com'') (JStr ''bad'')) = ''POST''"
    and "http_method (request_with (JStr ''test@example.com'') (JStr ''ok'')) = ''POST''"
    and "body (request_with (JStr ''test@example.com'') (JStr ''bad'')) =
           Some \<lparr>body_email = JStr ''test@example.com'', body_token = JStr ''bad''\<rparr>"
    and "body (request_with (JStr ''test@example.com'') (JStr ''ok'')) =
           Some \<lparr>body_email = JStr ''test@example.com'', body_token = JStr ''ok''\<rparr>"
    and "body_email \<lparr>body_email = JStr ''test@example.com'', body_token = JStr ''bad''\<rparr> =
         body_email \<lparr>body_email = JStr ''test@example.com'', body_token = JStr ''ok''\<rparr>"
    by (simp_all add: demo_env_def request_with_def)
  from token_ignored_when_captcha_off [OF this, of demo_ambient redis_world] show ?thesis by blast
qed

subsection \<open>Status codes and the session cookie\<close>

text \<open>
  C7. A request that is not a POST is answered with status 501 and the code
  \<^verbatim>\<open>method_unknown\<close>. Every response the handler writes has status 200, 201, 400 or
  501; 501 is written for a request that is not a POST only, and 400 with the code
  \<^verbatim>\<open>bad_email\<close> or \<^verbatim>\<open>bad_captcha\<close> only. A request with a body whose
  \<^verbatim>\<open>email\<close> field is a string, or missing or falsy, does get a response, with one of
  the four codes. (A call that throws, on a body that is \<^verbatim>\<open>null\<close> or an
  \<^verbatim>\<open>email\<close> field that is truthy and no string, writes no response.)
\<close>

theorem status_codes:
  "(http_method req \<noteq> ''POST'' \<longrightarrow>
      outcome (register cfg amb w req) =
        Response (error_response 501 ''method_unknown'' ''This endpoint only responds to POST'')) \<and>
   (\<forall>rsp. outcome (register cfg amb w req) = Response rsp \<longrightarrow>
      status rsp \<in> {200, 201, 400, 501} \<and>
      (status rsp = 501 \<longrightarrow> http_method req \<noteq> ''POST'') \<and>
      (status rsp = 400 \<longrightarrow>
         json rsp = ErrorBody ''bad_email'' ''Invalid email'' \<or>
         json rsp = ErrorBody ''bad_captcha'' ''Invalid captcha'')) \<and>
   (\<forall>b e. body req = Some b \<and> email_of (body_email b) = Inr e \<longrightarrow>
      status_of (outcome (register cfg amb w req)) \<in> {Some 200, Some 201, Some 400, Some 501})"
proof -
  have first: "outcome (register cfg amb w req) =
      Response (error_response 501 ''method_unknown'' ''This endpoint only responds to POST'')"
    if "http_method req \<noteq> ''POST''"
    using that by (simp add: register_not_POST)
  have second: "status rsp \<in> {200, 201, 400, 501} \<and>
      (status rsp = 501 \<longrightarrow> http_method req \<noteq> ''POST'') \<and>
      (status rsp = 400 \<longrightarrow>
         json rsp = ErrorBody ''bad_email'' ''Invalid email'' \<or>
         json rsp = ErrorBody ''bad_captcha'' ''Invalid captcha'')"
    if out: "outcome (register cfg amb w req) = Response rsp" for rsp
  proof (cases "http_method req = ''POST''")
    case False
    with first out show ?thesis by (simp add: error_response_def)
  next
    case True
    with register_POST_status [OF True out] show ?thesis by auto
  qed
  have third: "status_of (outcome (register cfg amb w req)) \<in>
      {Some 200, Some 201, Some 400, Some 501}"
    if "body req = Some b \<and> email_of (body_email b) = Inr e" for b e
  proof -
    from that register_returns [of req b e cfg amb w]
    obtain rsp where out: "outcome (register cfg amb w req) = Response rsp" by blast
    with second [OF out] show ?thesis by (simp add: status_of_def)
  qed
  from first second third show ?thesis by blast
qed

theorem status_codes_witness:
  "outcome (register demo_env demo_ambient redis_world get_request) =
     Response (error_response 501 ''method_unknown'' ''This endpoint only responds to POST'') \<and>
   status (error_response 400 ''bad_email'' ''Invalid email'') \<in> {200, 201, 400, 501} \<and>
   json (error_response 400 ''bad_email'' ''Invalid email'') = ErrorBody ''bad_email'' ''Invalid email''"
proof -
  have g: "http_method get_request \<noteq> ''POST''"
    by (simp add: get_request_def)
  have b: "outcome (register demo_env demo_ambient redis_world
                      (request_with (JStr ''not-an-email'') JUndefined)) =
           Response (error_response 400 ''bad_email'' ''Invalid email'')"
    by code_simp
  from status_codes [of get_request demo_env demo_ambient redis_world] g
  have "outcome (register demo_env demo_ambient redis_world get_request) =
     Response (error_response 501 ''method_unknown'' ''This endpoint only responds to POST'')"
    by blast
  moreover from status_codes [of "request_with (JStr ''not-an-email'') JUndefined" demo_env demo_ambient
      redis_world] b
  have "status (error_response 400 ''bad_email'' ''Invalid email'') \<in> {200, 201, 400, 501}"
    by blast
  ultimately show ?thesis by (simp add: error_response_def)
qed

text \<open>
  Whenever the body carries an \<^verbatim>\<open>id\<close>, the cookie is written from the same value;
  on the key-value backend every accepted request is answered with one.
\<close>

lemma issued_id_in_cookie:
  assumes "body_id_of (outcome (register cfg amb w req)) = Some i"
  shows "cookie_id_of (outcome (register cfg amb w req)) = Some i"
proof (cases "http_method req = ''POST''")
  case False
  with assms show ?thesis
    by (simp add: register_not_POST body_id_of_def user_of_def error_response_def)
next
  case True
  consider (throws) err where "outcome (register cfg amb w req) = Throws err"
    | (rejected) code msg where
        "outcome (register cfg amb w req) = Response (error_response 400 code msg)"
    | (resolved) e tr where "register cfg amb w req = resolve cfg amb w e tr"
    using register_POST [OF True, of cfg amb w] by blast
  then show ?thesis
  proof cases
    case (throws err)
    with assms show ?thesis by (simp add: body_id_of_def user_of_def)
  next
    case (rejected code msg)
    with assms show ?thesis by (simp add: body_id_of_def user_of_def error_response_def)
  next
    case (resolved e tr)
    with resolve_outcome [of cfg amb w e tr] assms show ?thesis
      by (auto simp: cookie_id_of_def body_id_of_def user_of_def success_response_def
            split: if_splits)
  qed
qed

lemma redis_id_issued:
  assumes "redis w = Some r" and "accepted cfg req e"
  shows "body_id_of (outcome (register cfg amb w req)) = Some (JStr (emailToId cfg e))"
    and "cookie_id_of (outcome (register cfg amb w req)) = Some (JStr (emailToId cfg e))"
proof -
  show "body_id_of (outcome (register cfg amb w req)) = Some (JStr (emailToId cfg e))"
    using assms(1)
    by (simp add: register_accepted [OF assms(2)] resolve_def register_redis_def Let_def
          incr_def body_id_of_def user_of_def success_response_def)
  from issued_id_in_cookie [OF this]
  show "cookie_id_of (outcome (register cfg amb w req)) = Some (JStr (emailToId cfg e))" .
qed

text \<open>
  C4. In every response with status 200 or 201 the identifier in the session cookie is to
  be the \<^verbatim>\<open>id\<close> of the JSON body. It is not on the relational branch of an existing
  registration, where lines 113 to 120 leave \<^verbatim>\<open>id\<close> unassigned. From an empty table,
  the first call for an address is answered with status 201, the identifier \<^verbatim>\<open>row-7\<close>
  in the cookie and in the body; the second with status 200, a cookie written from
  \<^verbatim>\<open>undefined\<close> and a body that has no \<^verbatim>\<open>id\<close> key.
\<close>

theorem relational_existing_cookie_without_body_id:
  "map status_of (snd (run demo_env empty_supabase_world
      [(demo_ambient, demo_request), (demo_ambient, demo_request)])) = [Some 201, Some 200] \<and>
   map cookie_id_of (snd (run demo_env empty_supabase_world
      [(demo_ambient, demo_request), (demo_ambient, demo_request)])) =
     [Some (JStr ''row-7''), Some JUndefined] \<and>
   map body_id_of (snd (run demo_env empty_supabase_world
      [(demo_ambient, demo_request), (demo_ambient, demo_request)])) =
     [Some (JStr ''row-7''), None]"
  by code_simp

subsection \<open>The key-value backend\<close>

lemma show_digits_not_empty: "show_digits n \<noteq> []"
  by (subst show_digits.simps) simp

lemma showInt_not_empty: "showInt n \<noteq> []"
  by (simp add: showInt_def show_digits_not_empty)

lemma register_redis_new:
  assumes "\<not> registered_redis cfg r e"
  shows "register_redis cfg amb r e =
           (hmset (fst (incr r ''count'')) (''id:'' @ emailToId cfg e)
              [(''email'', e), (''ticketNumber'', showInt (counters r ''count'' + 1)),
               (''createdAt'', showInt (date_now amb))],
            201,
            \<lparr>id' = JStr (emailToId cfg e), email = e,
             ticketNumber = Num (counters r ''count'' + 1), createdAt = Num (date_now amb),
             name = JUndefined, username = JUndefined\<rparr>,
            [RedisHget (''id:'' @ emailToId cfg e) ''ticketNumber'', RedisIncr ''count'',
             RedisHmset (''id:'' @ emailToId cfg e)
               [(''email'', e), (''ticketNumber'', showInt (counters r ''count'' + 1)),
                (''createdAt'', showInt (date_now amb))]])"
  using assms by (simp add: register_redis_def registered_redis_def incr_def Let_def)

lemma register_redis_existing:
  assumes "registered_redis cfg r e"
  shows "register_redis cfg amb r e =
           (r, 200,
            \<lparr>id' = JStr (emailToId cfg e), email = e,
             ticketNumber = parse_field (hget r (''id:'' @ emailToId cfg e) ''ticketNumber''),
             createdAt = parse_field (hget r (''id:'' @ emailToId cfg e) ''createdAt''),
             name = field_val (hget r (''id:'' @ emailToId cfg e) ''name''),
             username = field_val (hget r (''id:'' @ emailToId cfg e) ''username'')\<rparr>,
            [RedisHget (''id:'' @ emailToId cfg e) ''ticketNumber'',
             RedisHmget (''id:'' @ emailToId cfg e) [''name'', ''username'', ''createdAt'']])"
  using assms by (simp add: register_redis_def registered_redis_def hmget_def hget_def Let_def)

lemma register_redis_world:
  assumes "redis w = Some r"
  shows "\<exists>r'. redis (world_after (register cfg amb w req)) = Some r'"
  using assms
  by (auto simp: register_def resolve_def split: option.splits sum.splits prod.splits)

lemma register_redis_step:
  assumes "redis w = Some r"
  shows "count_of w \<le> count_of (world_after (register cfg amb w req)) \<and>
         (\<forall>n \<in> set (assigned (outcome (register cfg amb w req))).
            count_of w < n \<and> n \<le> count_of (world_after (register cfg amb w req)))"
proof (cases "\<exists>e tr. register cfg amb w req = resolve cfg amb w e tr")
  case True
  then obtain e tr where reg: "register cfg amb w req = resolve cfg amb w e tr" by blast
  obtain r' st u ops where rr: "register_redis cfg amb r e = (r', st, u, ops)"
    using prod_cases4 by blast
  have w': "world_after (register cfg amb w req) = w\<lparr>redis := Some r'\<rparr>"
    and out: "outcome (register cfg amb w req) = Response (success_response cfg amb st u)"
    using assms reg rr by (simp_all add: resolve_def)
  show ?thesis
  proof (cases "registered_redis cfg r e")
    case True
    with register_redis_existing [OF True, of amb] rr
    have "r' = r" "st = 200" by simp_all
    with assms w' out show ?thesis
      by (simp add: count_of_def assigned_def success_response_def)
  next
    case False
    with register_redis_new [OF False, of amb] rr
    have "counters r' ''count'' = counters r ''count'' + 1" "st = 201"
      "ticketNumber u = Num (counters r ''count'' + 1)"
      by (auto simp: hmset_def incr_def)
    with assms w' out show ?thesis
      by (simp add: count_of_def assigned_def success_response_def)
  qed
next
  case False
  then have "world_after (register cfg amb w req) = w \<and>
      assigned (outcome (register cfg amb w req)) = []"
    by (auto simp: register_def assigned_def error_response_def
          split: if_splits option.splits sum.splits)
  then show ?thesis by simp
qed


lemma assigned_sorted: "sorted_wrt (<) (assigned out)"
  by (simp add: assigned_def split: outcome.splits json_body.splits jsnum.splits)

lemma run_redis:
  assumes "redis w = Some r"
  shows "(\<exists>r'. redis (fst (run cfg w cs)) = Some r') \<and>
         count_of w \<le> count_of (fst (run cfg w cs)) \<and>
         (\<forall>n \<in> set (concat (map assigned (snd (run cfg w cs)))).
            count_of w < n \<and> n \<le> count_of (fst (run cfg w cs))) \<and>
         sorted_wrt (<) (concat (map assigned (snd (run cfg w cs))))"
  using assms
proof (induction cs arbitrary: w r)
  case Nil
  then show ?case by simp
next
  case (Cons c cs)
  define res where "res = register cfg (fst c) w (snd c)"
  define w1 where "w1 = world_after res"
  obtain r1 where r1: "redis w1 = Some r1"
    using register_redis_world [OF Cons.prems, of cfg "fst c" "snd c"]
    by (auto simp: w1_def res_def)
  have step: "count_of w \<le> count_of w1"
    "\<forall>n \<in> set (assigned (outcome res)). count_of w < n \<and> n \<le> count_of w1"
    using register_redis_step [OF Cons.prems, of cfg "fst c" "snd c"]
    by (simp_all add: w1_def res_def)
  have rest: "\<exists>r'. redis (fst (run cfg w1 cs)) = Some r'"
    "count_of w1 \<le> count_of (fst (run cfg w1 cs))"
    "\<forall>n \<in> set (concat (map assigned (snd (run cfg w1 cs)))).
        count_of w1 < n \<and> n \<le> count_of (fst (run cfg w1 cs))"
    "sorted_wrt (<) (concat (map assigned (snd (run cfg w1 cs))))"
    using Cons.IH [OF r1] by simp_all
  have unfold: "run cfg w (c # cs) = (fst (run cfg w1 cs), outcome res # snd (run cfg w1 cs))"
    by (simp add: w1_def res_def Let_def)
  show ?case
    unfolding unfold using step rest assigned_sorted [of "outcome res"]
    by (fastforce simp: sorted_wrt_append)
qed

text \<open>A number written into the store is read back as it was.\<close>

lemma digit_char_val:
  assumes "0 \<le> k" "k < 10"
  shows "(of_char (char_of (48 + k :: int)) :: nat) = nat (48 + k)"
proof -
  have "(of_char (char_of (48 + k)) :: int) = (48 + k) mod 256"
    by (rule of_char_of)
  also have "\<dots> = 48 + k" using assms by simp
  finally have "(of_char (char_of (48 + k)) :: int) = 48 + k" .
  moreover have "(of_char c :: int) = int (of_char c)" for c
    by (simp add: of_char_def)
  ultimately show ?thesis by (metis nat_int)
qed

lemma digit_char_is_digit:
  assumes "0 \<le> k" "k < 10"
  shows "is_digit (char_of (48 + k))" and "digit_val (char_of (48 + k)) = k"
    and "\<not> is_space (char_of (48 + k))"
    and "char_of (48 + k) \<noteq> CHR ''-''" and "char_of (48 + k) \<noteq> CHR ''+''"
  using assms digit_char_val [OF assms]
  by (auto simp: is_digit_def digit_val_def is_space_def Let_def)

lemma digits_val_snoc: "digits_val (ds @ [c]) = digits_val ds * 10 + digit_val c"
  by (simp add: digits_val_def)

lemma show_digits_digits:
  "0 \<le> n \<Longrightarrow> (\<forall>c \<in> set (show_digits n). is_digit c) \<and> digits_val (show_digits n) = n"
proof (induction n rule: show_digits.induct)
  case (1 n)
  show ?case
  proof (cases "n < 10")
    case True
    with "1.prems" digit_char_is_digit [of n] show ?thesis
      by (subst (1 2) show_digits.simps) (simp add: digits_val_def)
  next
    case False
    with "1.prems" have "0 \<le> n div 10" by simp
    with "1.IH" [OF False] have ih: "\<forall>c \<in> set (show_digits (n div 10)). is_digit c"
      "digits_val (show_digits (n div 10)) = n div 10" by simp_all
    have m: "0 \<le> n mod 10" "n mod 10 < 10" by simp_all
    from False ih digit_char_is_digit [OF m] show ?thesis
      by (subst (1 2) show_digits.simps) (simp add: digits_val_snoc)
  qed
qed

lemma show_digits_head:
  "0 \<le> n \<Longrightarrow> \<exists>c cs. show_digits n = c # cs \<and> is_digit c"
  using show_digits_digits [of n] show_digits_not_empty [of n]
  by (cases "show_digits n") auto

lemma is_digit_not_space: "is_digit c \<Longrightarrow> \<not> is_space c \<and> c \<noteq> CHR ''-'' \<and> c \<noteq> CHR ''+''"
  by (auto simp: is_digit_def is_space_def Let_def)

lemma parseInt10_digits:
  assumes "ds = c # cs" and "\<forall>d \<in> set ds. is_digit d"
  shows "parseInt10 ds = Num (digits_val ds)"
    and "parseInt10 (CHR ''-'' # ds) = Num (- digits_val ds)"
proof -
  from assms have c: "is_digit c" by simp
  from assms have all: "takeWhile is_digit ds = ds"
    by (simp add: takeWhile_eq_all_conv)
  have minus: "\<not> is_space CHR ''-''"
    by (simp add: is_space_def)
  from is_digit_not_space [OF c] all assms(1) show "parseInt10 ds = Num (digits_val ds)"
    by (simp add: parseInt10_def)
  from minus all assms(1) show "parseInt10 (CHR ''-'' # ds) = Num (- digits_val ds)"
    by (simp add: parseInt10_def)
qed

lemma parseInt10_showInt: "parseInt10 (showInt n) = Num n"
proof (cases "n < 0")
  case True
  then have pos: "0 \<le> - n" by simp
  from show_digits_head [OF pos] obtain c cs where "show_digits (- n) = c # cs" by blast
  from parseInt10_digits(2) [OF this] show_digits_digits [OF pos] True
  show ?thesis by (simp add: showInt_def)
next
  case False
  then have pos: "0 \<le> n" by simp
  from show_digits_head [OF pos] obtain c cs where "show_digits n = c # cs" by blast
  from parseInt10_digits(1) [OF this] show_digits_digits [OF pos] False
  show ?thesis by (simp add: showInt_def)
qed


text \<open>
  A registration found on the key-value backend is returned with status 200 and the stores
  are left as they were; the call after a new registration returns the identifier, ticket
  number and creation time of the first.
\<close>

lemma redis_existing_call:
  assumes "redis w = Some r"
    and "accepted cfg req e"
    and "registered_redis cfg r e"
  shows "world_after (register cfg amb w req) = w"
    and "status_of (outcome (register cfg amb w req)) = Some 200"
    and "user_of (outcome (register cfg amb w req)) =
           Some \<lparr>id' = JStr (emailToId cfg e), email = e,
                 ticketNumber = parse_field (hget r (''id:'' @ emailToId cfg e) ''ticketNumber''),
                 createdAt = parse_field (hget r (''id:'' @ emailToId cfg e) ''createdAt''),
                 name = field_val (hget r (''id:'' @ emailToId cfg e) ''name''),
                 username = field_val (hget r (''id:'' @ emailToId cfg e) ''username'')\<rparr>"
proof -
  have same: "w\<lparr>redis := Some r\<rparr> = w"
    using assms(1) by (cases w) simp
  have reg: "register cfg amb w req =
      (let (r', statusCode, u, ops) = register_redis cfg amb r e
       in \<lparr>outcome = Response (success_response cfg amb statusCode u),
           world_after = w\<lparr>redis := Some r'\<rparr>, trace = captcha_trace cfg req @ ops\<rparr>)"
    using assms(1) by (simp add: register_accepted [OF assms(2)] resolve_def)
  show "world_after (register cfg amb w req) = w"
    by (simp add: reg register_redis_existing [OF assms(3)] same)
  show "status_of (outcome (register cfg amb w req)) = Some 200"
    by (simp add: reg register_redis_existing [OF assms(3)] status_of_def success_response_def)
  show "user_of (outcome (register cfg amb w req)) =
           Some \<lparr>id' = JStr (emailToId cfg e), email = e,
                 ticketNumber = parse_field (hget r (''id:'' @ emailToId cfg e) ''ticketNumber''),
                 createdAt = parse_field (hget r (''id:'' @ emailToId cfg e) ''createdAt''),
                 name = field_val (hget r (''id:'' @ emailToId cfg e) ''name''),
                 username = field_val (hget r (''id:'' @ emailToId cfg e) ''username'')\<rparr>"
    by (simp add: reg register_redis_existing [OF assms(3)] user_of_def success_response_def)
qed

lemma redis_second_call:
  assumes "redis w = Some r"
    and "accepted cfg req e"
    and "\<not> registered_redis cfg r e"
  shows "status_of (outcome (register cfg amb w req)) = Some 201"
    and "status_of (outcome (register cfg amb2 (world_after (register cfg amb w req)) req)) =
           Some 200"
    and "world_after (register cfg amb2 (world_after (register cfg amb w req)) req) =
           world_after (register cfg amb w req)"
    and "\<exists>u1 u2. user_of (outcome (register cfg amb w req)) = Some u1 \<and>
           user_of (outcome (register cfg amb2 (world_after (register cfg amb w req)) req)) =
             Some u2 \<and>
           id' u2 = id' u1 \<and> ticketNumber u2 = ticketNumber u1 \<and> createdAt u2 = createdAt u1 \<and>
           email u2 = email u1"
proof -
  let ?key = "''id:'' @ emailToId cfg e"
  let ?n = "counters r ''count'' + 1"
  let ?r' = "hmset (fst (incr r ''count'')) ?key
     [(''email'', e), (''ticketNumber'', showInt ?n), (''createdAt'', showInt (date_now amb))]"
  have reg: "register cfg amb w req =
      (let (r', statusCode, u, ops) = register_redis cfg amb r e
       in \<lparr>outcome = Response (success_response cfg amb statusCode u),
           world_after = w\<lparr>redis := Some r'\<rparr>, trace = captcha_trace cfg req @ ops\<rparr>)"
    using assms(1) by (simp add: register_accepted [OF assms(2)] resolve_def)
  have w': "world_after (register cfg amb w req) = w\<lparr>redis := Some ?r'\<rparr>"
    by (simp add: reg register_redis_new [OF assms(3)])
  have u1: "user_of (outcome (register cfg amb w req)) =
      Some \<lparr>id' = JStr (emailToId cfg e), email = e, ticketNumber = Num ?n,
            createdAt = Num (date_now amb), name = JUndefined, username = JUndefined\<rparr>"
    by (simp add: reg register_redis_new [OF assms(3)] user_of_def success_response_def)
  have tn: "hget ?r' ?key ''ticketNumber'' = Some (showInt ?n)"
    and ca: "hget ?r' ?key ''createdAt'' = Some (showInt (date_now amb))"
    by (simp_all add: hget_def hmset_def incr_def)
  have r': "redis (w\<lparr>redis := Some ?r'\<rparr>) = Some ?r'"
    by simp
  have ex: "registered_redis cfg ?r' e"
    using tn by (simp add: registered_redis_def truthy_field_def showInt_not_empty)
  show "status_of (outcome (register cfg amb w req)) = Some 201"
    by (simp add: reg register_redis_new [OF assms(3)] status_of_def success_response_def)
  show "status_of (outcome (register cfg amb2 (world_after (register cfg amb w req)) req)) =
           Some 200"
    unfolding w' by (rule redis_existing_call(2) [OF r' assms(2) ex])
  show "world_after (register cfg amb2 (world_after (register cfg amb w req)) req) =
           world_after (register cfg amb w req)"
    unfolding w' by (rule redis_existing_call(1) [OF r' assms(2) ex])
  show "\<exists>u1 u2. user_of (outcome (register cfg amb w req)) = Some u1 \<and>
           user_of (outcome (register cfg amb2 (world_after (register cfg amb w req)) req)) =
             Some u2 \<and>
           id' u2 = id' u1 \<and> ticketNumber u2 = ticketNumber u1 \<and> createdAt u2 = createdAt u1 \<and>
           email u2 = email u1"
    unfolding w'
    using u1 redis_existing_call(3) [OF r' assms(2) ex, of amb2] tn ca
    by (simp add: parse_field_def parseInt10_showInt)
qed

text \<open>
  C2. On the key-value backend, after any sequence of calls, an accepted request for an
  address with no registration is answered with status 201; its ticket number is the
  result of the one \<^verbatim>\<open>incr\<close> of the key \<^verbatim>\<open>count\<close>, that is the counter plus one,
  and the record is stored under the identifier of the address. The number is greater than
  every ticket number a call of the sequence assigned: the numbers assigned, in the order
  of the calls, increase strictly. The increment is a single operation of the store.
\<close>

theorem new_ticket_exceeds_earlier:
  assumes "redis w = Some r"
    and "run cfg w cs = (w1, outs)"
    and "accepted cfg req e"
    and "\<not> registered cfg w1 e"
  shows "status_of (outcome (register cfg amb w1 req)) = Some 201 \<and>
         assigned (outcome (register cfg amb w1 req)) = [count_of w1 + 1] \<and>
         count_of (world_after (register cfg amb w1 req)) = count_of w1 + 1 \<and>
         redis_field (world_after (register cfg amb w1 req)) (''id:'' @ emailToId cfg e)
             ''ticketNumber'' = Some (showInt (count_of w1 + 1)) \<and>
         registered cfg (world_after (register cfg amb w1 req)) e \<and>
         trace (register cfg amb w1 req) =
           captcha_trace cfg req @
           [RedisHget (''id:'' @ emailToId cfg e) ''ticketNumber'', RedisIncr ''count'',
            RedisHmset (''id:'' @ emailToId cfg e)
              [(''email'', e), (''ticketNumber'', showInt (count_of w1 + 1)),
               (''createdAt'', showInt (date_now amb))]] \<and>
         (\<forall>n \<in> set (concat (map assigned outs)). n < count_of w1 + 1) \<and>
         sorted_wrt (<) (concat (map assigned (outs @ [outcome (register cfg amb w1 req)])))"
proof -
  from run_redis [OF assms(1), of cfg cs] assms(2)
  obtain r1 where r1: "redis w1 = Some r1"
    and earlier: "\<forall>n \<in> set (concat (map assigned outs)). n \<le> count_of w1"
    and sorted: "sorted_wrt (<) (concat (map assigned outs))"
    by auto
  from assms(4) r1 have new: "\<not> registered_redis cfg r1 e"
    by (simp add: registered_def)
  have reg: "register cfg amb w1 req =
      (let (r', statusCode, u, ops) = register_redis cfg amb r1 e
       in \<lparr>outcome = Response (success_response cfg amb statusCode u),
           world_after = w1\<lparr>redis := Some r'\<rparr>, trace = captcha_trace cfg req @ ops\<rparr>)"
    using r1 by (simp add: register_accepted [OF assms(3)] resolve_def)
  have c: "count_of w1 = counters r1 ''count''"
    using r1 by (simp add: count_of_def)
  have a: "assigned (outcome (register cfg amb w1 req)) = [count_of w1 + 1]"
    by (simp add: reg register_redis_new [OF new] c assigned_def success_response_def)
  have "status_of (outcome (register cfg amb w1 req)) = Some 201"
    by (simp add: reg register_redis_new [OF new] status_of_def success_response_def)
  moreover have "count_of (world_after (register cfg amb w1 req)) = count_of w1 + 1"
    using r1 by (simp add: reg register_redis_new [OF new] count_of_def hmset_def incr_def)
  moreover have "redis_field (world_after (register cfg amb w1 req)) (''id:'' @ emailToId cfg e)
             ''ticketNumber'' = Some (showInt (count_of w1 + 1))"
    by (simp add: reg register_redis_new [OF new] c redis_field_def hget_def hmset_def incr_def)
  moreover from this have "registered cfg (world_after (register cfg amb w1 req)) e"
    by (simp add: reg register_redis_new [OF new] registered_def registered_redis_def
          redis_field_def truthy_field_def showInt_not_empty)
  moreover have "trace (register cfg amb w1 req) =
           captcha_trace cfg req @
           [RedisHget (''id:'' @ emailToId cfg e) ''ticketNumber'', RedisIncr ''count'',
            RedisHmset (''id:'' @ emailToId cfg e)
              [(''email'', e), (''ticketNumber'', showInt (count_of w1 + 1)),
               (''createdAt'', showInt (date_now amb))]]"
    by (simp add: reg register_redis_new [OF new] c)
  moreover have "\<forall>n \<in> set (concat (map assigned outs)). n < count_of w1 + 1"
    using earlier by auto
  moreover from this sorted
  have "sorted_wrt (<) (concat (map assigned (outs @ [outcome (register cfg amb w1 req)])))"
    by (simp add: a sorted_wrt_append)
  ultimately show ?thesis using a by simp
qed

theorem new_ticket_exceeds_earlier_witness:
  "concat (map assigned (snd (run demo_env redis_world [(demo_ambient, demo_request)]))) = [1] \<and>
   status_of (outcome (register demo_env demo_ambient
       (fst (run demo_env redis_world [(demo_ambient, demo_request)])) other_request)) = Some 201 \<and>
   assigned (outcome (register demo_env demo_ambient
       (fst (run demo_env redis_world [(demo_ambient, demo_request)])) other_request)) = [2]"
proof -
  let ?cs = "[(demo_ambient, demo_request)]"
  have r: "redis redis_world = Some empty_redis"
    by (simp add: redis_world_def)
  have p: "run demo_env redis_world ?cs =
      (fst (run demo_env redis_world ?cs), snd (run demo_env redis_world ?cs))"
    by simp
  have a: "accepted demo_env other_request ''other@example.com''"
    by code_simp
  have n: "\<not> registered demo_env (fst (run demo_env redis_world ?cs)) ''other@example.com''"
    by code_simp
  have c: "count_of (fst (run demo_env redis_world ?cs)) = 1"
    by code_simp
  have e: "concat (map assigned (snd (run demo_env redis_world ?cs))) = [1]"
    by code_simp
  from new_ticket_exceeds_earlier [OF r p a n, of demo_ambient] c e show ?thesis by simp
qed

subsection \<open>The relational backend\<close>

text \<open>
  C3. On the relational backend an accepted request for an address that the lookup does
  not find is answered with status 201 and the ticket number "rows in the table, plus one".
  The number comes from a count query; the insert that follows is a store operation of its
  own and takes the number as it was computed. Nothing ties the two together: an insert by
  a second request that counted the same table, landing after this one, stores the same
  number again.
\<close>

theorem relational_ticket_is_count_plus_one:
  assumes "redis w = None"
    and "supabase w = Some t"
    and "accepted cfg req e"
    and "select_single t e = None"
  shows "register cfg amb w req =
           \<lparr>outcome = Response (success_response cfg amb 201
               \<lparr>id' = db_id amb, email = e, ticketNumber = Num (int (length t) + 1),
                createdAt = parseInt10 (db_created_at amb),
                name = JUndefined, username = JUndefined\<rparr>),
            world_after = w\<lparr>supabase := Some (fst (insert_single amb t (count_exact t + 1) e))\<rparr>,
            trace = captcha_trace cfg req @
                    [SbSelectSingle e, SbCount, SbInsert (count_exact t + 1) e]\<rparr> \<and>
         count_exact t = int (length t) \<and>
         map ticket_number (fst (insert_single amb t (count_exact t + 1) e)) =
           map ticket_number t @ [int (length t) + 1] \<and>
         (\<forall>amb2 e2.
            map ticket_number
              (fst (insert_single amb2 (fst (insert_single amb t (count_exact t + 1) e))
                      (count_exact t + 1) e2)) =
            map ticket_number t @ [int (length t) + 1, int (length t) + 1])"
  using assms
  by (simp add: register_accepted resolve_def register_supabase_def count_exact_def
        insert_single_def Let_def)

theorem relational_ticket_is_count_plus_one_witness:
  "status_of (outcome (register demo_env demo_ambient supabase_world other_request)) = Some 201 \<and>
   assigned (outcome (register demo_env demo_ambient supabase_world other_request)) = [2] \<and>
   trace (register demo_env demo_ambient supabase_world other_request) =
     [SbSelectSingle ''other@example.com'', SbCount, SbInsert 2 ''other@example.com'']"
proof -
  have r: "redis supabase_world = None"
    and t: "supabase supabase_world = Some [demo_row]"
    by (simp_all add: supabase_world_def)
  have a: "accepted demo_env other_request ''other@example.com''"
    by code_simp
  have n: "select_single [demo_row] ''other@example.com'' = None"
    by code_simp
  have ct: "captcha_trace demo_env other_request = []"
    by code_simp
  from relational_ticket_is_count_plus_one [OF r t a n, of demo_ambient]
  have "register demo_env demo_ambient supabase_world other_request =
      \<lparr>outcome = Response (success_response demo_env demo_ambient 201
          \<lparr>id' = db_id demo_ambient, email = ''other@example.com'',
           ticketNumber = Num (int (length [demo_row]) + 1),
           createdAt = parseInt10 (db_created_at demo_ambient),
           name = JUndefined, username = JUndefined\<rparr>),
       world_after = supabase_world\<lparr>supabase := Some (fst (insert_single demo_ambient
          [demo_row] (count_exact [demo_row] + 1) ''other@example.com''))\<rparr>,
       trace = captcha_trace demo_env other_request @
               [SbSelectSingle ''other@example.com'', SbCount,
                SbInsert (count_exact [demo_row] + 1) ''other@example.com'']\<rparr>"
    by (rule conjunct1)
  then show ?thesis
    by (simp add: status_of_def assigned_def success_response_def count_exact_def ct)
qed

lemma register_supabase_existing:
  assumes "select_single t e = Some item"
  shows "register_supabase amb t e =
           (t, 200,
            \<lparr>id' = JUndefined, email = e, ticketNumber = Num (ticket_number item),
             createdAt = parseInt10 (created_at item), name = row_name item,
             username = row_username item\<rparr>,
            [SbSelectSingle e])"
  using assms by (simp add: register_supabase_def parseInt10_showInt)

text \<open>
  C1. For an address with a stored registration the call is to return the stored record,
  identifier included, with status 200, on both backends. On the key-value backend it
  does (\<open>redis_existing_call\<close>, \<open>redis_second_call\<close>). On the relational backend
  lines 113 to 120 never assign \<^verbatim>\<open>id\<close>, as line 131 does for a new row
  (\<open>register_supabase_existing\<close>). From an empty table, the first call for an address
  is answered with status 201 and the identifier \<^verbatim>\<open>row-7\<close> of the new row; the second
  call for it with status 200, the same ticket number and creation time, and
  \<^verbatim>\<open>undefined\<close> as the identifier, in the body and in the cookie.
\<close>

theorem relational_existing_id_undefined:
  "map status_of (snd (run demo_env empty_supabase_world
      [(demo_ambient, demo_request), (demo_ambient, demo_request)])) = [Some 201, Some 200] \<and>
   map user_of (snd (run demo_env empty_supabase_world
      [(demo_ambient, demo_request), (demo_ambient, demo_request)])) =
     [Some \<lparr>id' = JStr ''row-7'', email = ''test@example.com'', ticketNumber = Num 1,
            createdAt = Num 1600000000000, name = JUndefined, username = JUndefined\<rparr>,
      Some \<lparr>id' = JUndefined, email = ''test@example.com'', ticketNumber = Num 1,
            createdAt = Num 1600000000000, name = JNull, username = JNull\<rparr>] \<and>
   map cookie_id_of (snd (run demo_env empty_supabase_world
      [(demo_ambient, demo_request), (demo_ambient, demo_request)])) =
     [Some (JStr ''row-7''), Some JUndefined]"
  by code_simp

subsection \<open>No backend\<close>

text \<open>
  C8, as the code has it. With neither backend configured an accepted request is answered
  with the placeholder ticket number, the identifier \<^verbatim>\<open>nanoid()\<close> returned for this
  call and the time of the call, and nothing is stored. The status is 200, the status the
  handler uses for a registration that existed; 201, its status for a new one, is not
  used here.
\<close>

theorem sample_mode_response:
  assumes "redis w = None" and "supabase w = None" and "accepted cfg req e"
  shows "register cfg amb w req =
           \<lparr>outcome = Response (success_response cfg amb 200
               \<lparr>id' = JStr (nanoid amb), email = e, ticketNumber = Num (SAMPLE_TICKET_NUMBER cfg),
                createdAt = Num (date_now amb), name = JUndefined, username = JUndefined\<rparr>),
            world_after = w, trace = captcha_trace cfg req\<rparr>"
  using assms by (simp add: register_accepted resolve_def register_sample_def)

theorem sample_mode_response_witness:
  "status_of (outcome (register demo_env demo_ambient sample_world demo_request)) = Some 200 \<and>
   user_of (outcome (register demo_env demo_ambient sample_world demo_request)) =
     Some \<lparr>id' = JStr ''V1StGXR8'', email = ''test@example.com'', ticketNumber = Num 1234,
           createdAt = Num 1600000000000, name = JUndefined, username = JUndefined\<rparr>"
proof -
  have "redis sample_world = None" and "supabase sample_world = None"
    by (simp_all add: sample_world_def)
  from sample_mode_response [OF this demo_accepted, of demo_ambient] show ?thesis
    by (simp add: status_of_def user_of_def success_response_def demo_env_def demo_ambient_def)
qed

text \<open>
  The status in sample mode is not the one of a new registration: the same request gets
  200 with no backend and 201 from an empty key-value store.
\<close>

theorem sample_mode_status_counterexample:
  "accepted demo_env demo_request ''test@example.com'' \<and>
   status_of (outcome (register demo_env demo_ambient sample_world demo_request)) = Some 200 \<and>
   status_of (outcome (register demo_env demo_ambient sample_world demo_request)) \<noteq> Some 201 \<and>
   status_of (outcome (register demo_env demo_ambient redis_world demo_request)) = Some 201"
  by code_simp

end
